theory Spec2Isabelle
  imports Complex_Main
begin

section \<open>Python primitives used by the video composition engine\<close>

text \<open>
  Python floats are idealised as real numbers: the arithmetic of the source is modelled
  exactly and rounding error is outside the model.  Strings are lists of characters.
\<close>

datatype py_error = KeyError string | ValueError | OSError | ZeroDivisionError

text \<open>\<open>str.isspace\<close> on the code points below 256.\<close>

definition py_isspace :: "char \<Rightarrow> bool" where
  "py_isspace c = ((of_char c :: nat) \<in> {9, 10, 11, 12, 13, 28, 29, 30, 31, 32, 133, 160})"

text \<open>
  \<open>str.split()\<close> without argument: the maximal runs of non-whitespace characters.
  The first argument is the word being read.
\<close>

fun split_acc :: "string \<Rightarrow> string \<Rightarrow> string list" where
  "split_acc cur [] = (if cur = [] then [] else [cur])"
| "split_acc cur (c # cs) =
     (if py_isspace c
      then (if cur = [] then split_acc [] cs else cur # split_acc [] cs)
      else split_acc (cur @ [c]) cs)"

definition py_split :: "string \<Rightarrow> string list" where
  "py_split s = split_acc [] s"

text \<open>\<open>str.strip()\<close> without argument.\<close>

definition py_strip :: "string \<Rightarrow> string" where
  "py_strip s = rev (dropWhile py_isspace (rev (dropWhile py_isspace s)))"

text \<open>\<open>int(x)\<close> on a float: truncation towards zero.\<close>

definition py_int :: "real \<Rightarrow> int" where
  "py_int x = (if 0 \<le> x then \<lfloor>x\<rfloor> else \<lceil>x\<rceil>)"

text \<open>\<open>str(n)\<close> on a natural number: its decimal digits.\<close>

function str_of_nat :: "nat \<Rightarrow> string" where
  "str_of_nat n =
     (if n < 10 then [char_of (48 + n)]
      else str_of_nat (n div 10) @ [char_of (48 + n mod 10)])"
  by pat_completeness auto
termination
  by (relation "measure id") auto

declare str_of_nat.simps [simp del]

text \<open>\<open>posixpath.dirname\<close>.\<close>

definition posix_dirname :: "string \<Rightarrow> string" where
  "posix_dirname p =
     (let head = rev (dropWhile (\<lambda>c. c \<noteq> CHR ''/'') (rev p)) in
      if head \<noteq> [] \<and> \<not> list_all (\<lambda>c. c = CHR ''/'') head
      then rev (dropWhile (\<lambda>c. c = CHR ''/'') (rev head))
      else head)"

text \<open>
  The builtin \<open>round\<close>, which is also the rounding of IEEE 754 arithmetic: to the nearest
  integer, a tie to the even one.
\<close>

definition py_round :: "real \<Rightarrow> int" where
  "py_round x =
     (let f = \<lfloor>x\<rfloor>; r = x - real_of_int f in
      if r < 1 / 2 then f else if r > 1 / 2 then f + 1 else if even f then f else f + 1)"

text \<open>
  Double precision.  A float is the real number it denotes.  \<open>double_round x\<close> is the
  double nearest to \<open>x\<close>: 53 significant bits, a tie to the even significand.  A float
  literal denotes the double nearest to its decimal value, and \<open>+\<close>, \<open>-\<close>, \<open>*\<close>, \<open>/\<close>
  round the exact result, as IEEE 754 prescribes; \<open>pow\<close> with a small whole exponent is
  taken as correctly rounded.  Overflow, subnormal results, infinities and NaN are outside
  the model.
\<close>

definition double_round :: "real \<Rightarrow> real" where
  "double_round x =
     (if x = 0 then 0
      else
        let e = \<lfloor>log 2 \<bar>x\<bar>\<rfloor>;
            ulp = 2 powr real_of_int (e - 52)
        in real_of_int (py_round (x / ulp)) * ulp)"

definition fadd :: "real \<Rightarrow> real \<Rightarrow> real" where
  "fadd a b = double_round (a + b)"

definition fsub :: "real \<Rightarrow> real \<Rightarrow> real" where
  "fsub a b = double_round (a - b)"

definition fmul :: "real \<Rightarrow> real \<Rightarrow> real" where
  "fmul a b = double_round (a * b)"

definition fdiv :: "real \<Rightarrow> real \<Rightarrow> real" where
  "fdiv a b = double_round (a / b)"

definition fpow :: "real \<Rightarrow> nat \<Rightarrow> real" where
  "fpow a n = double_round (a ^ n)"

section \<open>Duration policy (utils/timing.py)\<close>

text \<open>
  \<open>calculate_text_duration(text, words_per_second=1.8, min_duration=4.0, max_duration=10.0)\<close>;
  every caller in the repository uses the default arguments.
\<close>

definition calculate_text_duration :: "string \<Rightarrow> real" where
  "calculate_text_duration text =
     (let words_per_second = 1.8; min_duration = 4.0; max_duration = 10.0 in
      if text = [] \<or> py_strip text = [] then min_duration
      else
        let word_count = length (py_split text);
            reading_time = real word_count / words_per_second;
            animation_buffer = 1.5;
            comprehension_time = real word_count * 0.4;
            calculated_duration = reading_time + animation_buffer + comprehension_time
        in max min_duration (min calculated_duration max_duration))"








section \<open>Word wrapping (effects/text_animator_v2.py, \<open>_wrap_text\<close>)\<close>

text \<open>\<open>' '.join(words)\<close>.\<close>

fun join_space :: "string list \<Rightarrow> string" where
  "join_space [] = []"
| "join_space [w] = w"
| "join_space (w # ws) = w @ '' '' @ join_space ws"

text \<open>
  The loop over the words.  \<open>line_width s\<close> is \<open>bbox[2] - bbox[0]\<close> for
  \<open>bbox = font.getbbox(s)\<close>: the metric of the font, which the function receives.
\<close>

fun wrap_loop ::
  "(string \<Rightarrow> int) \<Rightarrow> int \<Rightarrow> string list \<Rightarrow> string list \<Rightarrow> string list
     \<Rightarrow> string list \<times> string list" where
  "wrap_loop line_width max_width lines current_line [] = (lines, current_line)"
| "wrap_loop line_width max_width lines current_line (word # words) =
     (let test_line = join_space (current_line @ [word]) in
      if line_width test_line \<le> max_width
      then wrap_loop line_width max_width lines (current_line @ [word]) words
      else wrap_loop line_width max_width
             (if current_line \<noteq> [] then lines @ [join_space current_line] else lines)
             [word] words)"

definition wrap_text :: "(string \<Rightarrow> int) \<Rightarrow> int \<Rightarrow> string \<Rightarrow> string list" where
  "wrap_text line_width max_width text =
     (let words = py_split text;
          (lines, current_line) = wrap_loop line_width max_width [] [] words;
          lines' = (if current_line \<noteq> [] then lines @ [join_space current_line] else lines)
      in if lines' \<noteq> [] then lines' else [text])"

text \<open>A word: not empty, no whitespace in it.\<close>

definition is_word :: "string \<Rightarrow> bool" where
  "is_word w = (w \<noteq> [] \<and> \<not> list_ex py_isspace w)"

text \<open>
  A font metric under which a line is at least as wide as each of its words.
\<close>

definition metric_covers_words :: "(string \<Rightarrow> int) \<Rightarrow> bool" where
  "metric_covers_words line_width =
     (\<forall>ws w. w \<in> set ws \<longrightarrow> line_width w \<le> line_width (join_space ws))"

text \<open>
  A line the loop has finished: the join of its words, within the width unless it is a
  single word.
\<close>

definition fits :: "(string \<Rightarrow> int) \<Rightarrow> int \<Rightarrow> string list \<Rightarrow> bool" where
  "fits line_width max_width ws =
     (list_all is_word ws \<and> (2 \<le> length ws \<longrightarrow> line_width (join_space ws) \<le> max_width))"

definition finished :: "(string \<Rightarrow> int) \<Rightarrow> int \<Rightarrow> string \<Rightarrow> bool" where
  "finished line_width max_width l =
     (\<exists>ws. l = join_space ws \<and> fits line_width max_width ws)"

section \<open>Overlay positions (\<open>TextAnimator._parse_position\<close>, \<open>helpers.parse_position\<close>)\<close>

text \<open>
  A coordinate of a position list as the JSON configuration gives it: an integer, a
  float or a string.  A position is a string, a list of coordinates, or something else.
\<close>

datatype pyval = PInt int | PFloat real | PStr string

datatype position = PosStr string | PosList "pyval list" | PosOther









section \<open>Audio attachment (core/video_composer.py, \<open>_add_audio\<close>)\<close>

text \<open>
  An audio clip is the expression that builds it: a file, a sub-clip, a fade-out or a
  concatenation.  A video clip is its duration and its audio track, if any.
\<close>

datatype audio =
    AudioFileClip string
  | Subclip audio real real
  | AudioFadeOut audio real
  | ConcatAudio "audio list"

record video =
  v_duration :: real
  v_audio :: "audio option"

text \<open>
  \<open>path_exists\<close> is \<open>os.path.exists\<close> and \<open>media_duration p\<close> the duration of
  the audio file \<open>p\<close> as \<open>AudioFileClip(p).duration\<close> reports it.
\<close>

definition add_audio ::
  "(string \<Rightarrow> bool) \<Rightarrow> (string \<Rightarrow> real) \<Rightarrow> string \<Rightarrow> video \<Rightarrow> py_error + video" where
  "add_audio path_exists media_duration audio_path video_clip =
     (if \<not> path_exists audio_path then Inr video_clip
      else
        let audio = AudioFileClip audio_path;
            audio_duration = media_duration audio_path;
            video_duration = v_duration video_clip
        in if audio_duration > video_duration then
             Inr (video_clip\<lparr>v_audio := Some (AudioFadeOut (Subclip audio 0 video_duration) 1.5)\<rparr>)
           else if audio_duration < video_duration then
             (if audio_duration = 0 then Inl ZeroDivisionError
              else
                let loops_needed = py_int (video_duration / audio_duration) + 1;
                    looped = ConcatAudio (replicate (nat loops_needed) audio)
                in Inr (video_clip\<lparr>v_audio :=
                          Some (AudioFadeOut (Subclip looped 0 video_duration) 1.5)\<rparr>))
           else Inr (video_clip\<lparr>v_audio := Some audio\<rparr>))"

text \<open>Whether a fade-out, a sub-clip or a concatenation occurs in an audio expression.\<close>

fun has_fadeout :: "audio \<Rightarrow> bool" where
  "has_fadeout (AudioFileClip p) = False"
| "has_fadeout (Subclip a s e) = has_fadeout a"
| "has_fadeout (AudioFadeOut a d) = True"
| "has_fadeout (ConcatAudio as) = list_ex has_fadeout as"

section \<open>Configuration validation (core/config_loader.py)\<close>

text \<open>
  The configuration dictionary after \<open>_merge_with_defaults\<close>, restricted to the keys
  that \<open>_validate\<close> and \<open>_preprocess_scenes\<close> read: the defaults make
  \<open>output_path\<close>, \<open>width\<close>, \<open>height\<close> and \<open>fps\<close> present; every other key is
  optional, \<open>None\<close> when absent.
\<close>

record transition_cfg =
  tr_type :: "string option"
  tr_duration :: "real option"
  tr_from_edge :: "string option"

record effect_cfg =
  ef_type :: "string option"

text \<open>An element of \<open>lines\<close>: a dictionary with an optional \<open>text\<close>, or something else.\<close>

datatype line_cfg = LineObject "string option" | LineOther

datatype lines_cfg = LinesArray "line_cfg list" | LinesOther

record overlay_cfg =
  oc_type :: "string option"
  oc_text :: "string option"
  oc_lines :: "lines_cfg option"
  oc_animation :: "string option"
  oc_path :: "string option"

record scene_cfg =
  sc_name :: "string option"
  sc_image_path :: "string option"
  sc_background_effect :: "effect_cfg option"
  sc_transition :: "transition_cfg option"
  sc_overlays :: "overlay_cfg list option"

record config =
  cf_scenes :: "scene_cfg list option"
  cf_output_path :: string
  cf_audio_path :: "string option"
  cf_width :: int
  cf_height :: int
  cf_fps :: real

text \<open>
  The name used in messages: the scene's \<open>name\<close>, or \<open>Scene i+1\<close>; an overlay is
  named by its scene and its number.
\<close>

datatype scene_label = Named string | SceneNo nat

datatype message =
    RequiredFieldMissing string
  | NoScenes
  | MissingImagePath scene_label
  | ImageNotFound scene_label string
  | UnknownMotion scene_label string
  | UnknownTransition scene_label string
  | OverlayMissingType scene_label nat
  | TextOverlayMissingText scene_label nat
  | LinesNotArray scene_label nat
  | LineNotObject scene_label nat nat
  | LineMissingText scene_label nat nat
  | UnknownAnimation scene_label nat string
  | ImageOverlayMissingPath scene_label nat
  | OverlayImageNotFound scene_label nat string
  | CannotCreateOutputDir string
  | AudioNotFound string
  | BadDimensions
  | BadFps

definition VALID_ANIMATIONS :: "string list" where
  "VALID_ANIMATIONS =
     [''fade_in'', ''slide_bottom'', ''slide_top'', ''slide_left'', ''slide_right'',
      ''scale_in'', ''grow'', ''typewriter'', ''word_by_word'',
      ''AnimateTextFromLeft'', ''AnimateTextGrowFromCenter'', ''AnimateTextFadeInWordByWord'']"

definition VALID_TRANSITIONS :: "string list" where
  "VALID_TRANSITIONS = [''fade'', ''crossfade'', ''slide'', ''slideIn'', ''zoom'']"

definition VALID_MOTIONS :: "string list" where
  "VALID_MOTIONS = [''static'', ''kenBurns'', ''parallax'', ''pulse'', ''zoom_pulse'']"

text \<open>
  The state of a \<open>ConfigLoader\<close>.  The file system is the set of existing paths;
  \<open>os.path.dirname\<close> and \<open>os.makedirs\<close> are operations of the platform
  (\<open>os_makedirs\<close> gives the new file system, or \<open>None\<close> when it raises).
\<close>

record loader =
  ld_config :: config
  ld_warnings :: "message list"
  ld_errors :: "message list"

type_synonym filesystem = "string \<Rightarrow> bool"

record os_ops =
  os_dirname :: "string \<Rightarrow> string"
  os_makedirs :: "filesystem \<Rightarrow> string \<Rightarrow> filesystem option"

text \<open>The loop over \<open>lines\<close> of \<open>_validate_overlays\<close>.\<close>

fun validate_lines :: "scene_label \<Rightarrow> nat \<Rightarrow> nat \<Rightarrow> line_cfg list \<Rightarrow> message list" where
  "validate_lines nm j i [] = []"
| "validate_lines nm j i (l # ls) =
     (case l of
        LineOther \<Rightarrow> [LineNotObject nm j i]
      | LineObject None \<Rightarrow> [LineMissingText nm j i]
      | LineObject (Some t) \<Rightarrow> [])
     @ validate_lines nm j (Suc i) ls"

text \<open>
  One pass of the loop of \<open>_validate_overlays\<close>: the overlay as it is left (an
  unknown animation is replaced), the errors and the warnings it adds.
\<close>

definition validate_overlay ::
  "filesystem \<Rightarrow> scene_label \<Rightarrow> nat \<Rightarrow> overlay_cfg
     \<Rightarrow> overlay_cfg \<times> message list \<times> message list" where
  "validate_overlay fs nm j ov =
     (case oc_type ov of
        None \<Rightarrow> (ov, [OverlayMissingType nm (j + 1)], [])
      | Some overlay_type \<Rightarrow>
          if overlay_type = ''text'' then
            (let e1 = (if oc_text ov = None \<and> oc_lines ov = None
                       then [TextOverlayMissingText nm (j + 1)] else []);
                 e2 = (case oc_lines ov of
                         None \<Rightarrow> []
                       | Some LinesOther \<Rightarrow> [LinesNotArray nm (j + 1)]
                       | Some (LinesArray ls) \<Rightarrow> validate_lines nm (j + 1) 0 ls)
             in case oc_animation ov of
                  None \<Rightarrow> (ov, e1 @ e2, [])
                | Some anim \<Rightarrow>
                    if anim \<in> set VALID_ANIMATIONS then (ov, e1 @ e2, [])
                    else (ov\<lparr>oc_animation := Some ''fade_in''\<rparr>, e1 @ e2,
                          [UnknownAnimation nm (j + 1) anim]))
          else if overlay_type = ''image'' then
            (case oc_path ov of
               None \<Rightarrow> (ov, [ImageOverlayMissingPath nm (j + 1)], [])
             | Some p \<Rightarrow>
                 if \<not> fs p then (ov, [], [OverlayImageNotFound nm (j + 1) p]) else (ov, [], []))
          else (ov, [], []))"

fun validate_overlays ::
  "filesystem \<Rightarrow> scene_label \<Rightarrow> nat \<Rightarrow> overlay_cfg list
     \<Rightarrow> overlay_cfg list \<times> message list \<times> message list" where
  "validate_overlays fs nm j [] = ([], [], [])"
| "validate_overlays fs nm j (ov # ovs) =
     (let (ov', e, w) = validate_overlay fs nm j ov;
          (ovs', es, ws) = validate_overlays fs nm (Suc j) ovs
      in (ov' # ovs', e @ es, w @ ws))"

text \<open>One pass of the loop of \<open>_validate_scenes\<close>.\<close>

definition validate_scene ::
  "filesystem \<Rightarrow> nat \<Rightarrow> scene_cfg \<Rightarrow> scene_cfg \<times> message list \<times> message list" where
  "validate_scene fs i scene =
     (let scene_name = (case sc_name scene of Some n \<Rightarrow> Named n | None \<Rightarrow> SceneNo (i + 1));
          e_image = (case sc_image_path scene of
                       None \<Rightarrow> [MissingImagePath scene_name]
                     | Some p \<Rightarrow> if \<not> fs p then [ImageNotFound scene_name p] else []);
          (effect', w_effect) =
            (case sc_background_effect scene of
               None \<Rightarrow> (None, [])
             | Some effect \<Rightarrow>
                 (case ef_type effect of
                    None \<Rightarrow> (Some effect, [])
                  | Some effect_type \<Rightarrow>
                      if effect_type \<in> set VALID_MOTIONS then (Some effect, [])
                      else (Some (effect\<lparr>ef_type := Some ''static''\<rparr>),
                            [UnknownMotion scene_name effect_type])));
          (transition', w_transition) =
            (case sc_transition scene of
               None \<Rightarrow> (None, [])
             | Some transition \<Rightarrow>
                 (case tr_type transition of
                    None \<Rightarrow> (Some transition, [])
                  | Some trans_type \<Rightarrow>
                      if trans_type \<in> set VALID_TRANSITIONS then (Some transition, [])
                      else (Some (transition\<lparr>tr_type := Some ''fade''\<rparr>),
                            [UnknownTransition scene_name trans_type])));
          (overlays', e_overlays, w_overlays) =
            (case sc_overlays scene of
               None \<Rightarrow> (None, [], [])
             | Some ovs \<Rightarrow>
                 (let (ovs', e, w) = validate_overlays fs scene_name 0 ovs in (Some ovs', e, w)))
      in (scene\<lparr>sc_background_effect := effect', sc_transition := transition',
                 sc_overlays := overlays'\<rparr>,
          e_image @ e_overlays, w_effect @ w_transition @ w_overlays))"

fun validate_scene_list ::
  "filesystem \<Rightarrow> nat \<Rightarrow> scene_cfg list \<Rightarrow> scene_cfg list \<times> message list \<times> message list" where
  "validate_scene_list fs i [] = ([], [], [])"
| "validate_scene_list fs i (scene # scenes) =
     (let (scene', e, w) = validate_scene fs i scene;
          (scenes', es, ws) = validate_scene_list fs (Suc i) scenes
      in (scene' # scenes', e @ es, w @ ws))"

text \<open>\<open>_validate_scenes\<close>: without scenes one error and an early return.\<close>

definition validate_scenes ::
  "filesystem \<Rightarrow> scene_cfg list \<Rightarrow> scene_cfg list \<times> message list \<times> message list" where
  "validate_scenes fs scenes =
     (if scenes = [] then ([], [NoScenes], []) else validate_scene_list fs 0 scenes)"

text \<open>
  The output path block of \<open>_validate\<close>: a missing output directory is created, which
  changes the file system; a failure to create it is an error.
\<close>

definition output_dir_step :: "os_ops \<Rightarrow> filesystem \<Rightarrow> string \<Rightarrow> filesystem \<times> message list" where
  "output_dir_step ops fs output_path =
     (let output_dir = os_dirname ops output_path in
      if output_dir \<noteq> [] \<and> \<not> fs output_dir then
        (case os_makedirs ops fs output_dir of
           Some fs' \<Rightarrow> (fs', [])
         | None \<Rightarrow> (fs, [CannotCreateOutputDir output_dir]))
      else (fs, []))"

text \<open>The audio block of \<open>_validate\<close>, on the file system the output block left.\<close>

definition audio_step :: "filesystem \<Rightarrow> string option \<Rightarrow> message list" where
  "audio_step fs audio_path =
     (case audio_path of
        None \<Rightarrow> []
      | Some p \<Rightarrow> if \<not> fs p then [AudioNotFound p] else [])"

definition validate :: "os_ops \<Rightarrow> filesystem \<Rightarrow> loader \<Rightarrow> filesystem \<times> loader" where
  "validate ops fs ld =
     (let cfg = ld_config ld;
          e_required = (if cf_scenes cfg = None then [RequiredFieldMissing ''scenes''] else []);
          (scenes', e_scenes, w_scenes) =
            (case cf_scenes cfg of
               None \<Rightarrow> (None, [], [])
             | Some scenes \<Rightarrow> (let (s, e, w) = validate_scenes fs scenes in (Some s, e, w)));
          (fs', e_output) = output_dir_step ops fs (cf_output_path cfg);
          w_audio = audio_step fs' (cf_audio_path cfg);
          e_dimensions = (if cf_width cfg \<le> 0 \<or> cf_height cfg \<le> 0 then [BadDimensions] else []);
          e_fps = (if cf_fps cfg \<le> 0 then [BadFps] else [])
      in (fs',
          \<lparr>ld_config = cfg\<lparr>cf_scenes := scenes'\<rparr>,
           ld_warnings = ld_warnings ld @ w_scenes @ w_audio,
           ld_errors = ld_errors ld @ e_required @ e_scenes @ e_output @ e_dimensions @ e_fps\<rparr>))"

text \<open>
  \<open>_preprocess_scenes\<close> on the keys of this view: the default name and background
  effect of a scene, the default animation of a text overlay.  \<open>overlay['type']\<close>
  raises \<open>KeyError\<close> on an overlay without a type.
\<close>

fun preprocess_overlays :: "overlay_cfg list \<Rightarrow> py_error + overlay_cfg list" where
  "preprocess_overlays [] = Inr []"
| "preprocess_overlays (ov # ovs) =
     (case oc_type ov of
        None \<Rightarrow> Inl (KeyError ''type'')
      | Some ty \<Rightarrow>
          (let ov' = (if ty = ''text'' \<and> oc_animation ov = None
                      then ov\<lparr>oc_animation := Some ''fade_in''\<rparr> else ov)
           in case preprocess_overlays ovs of
                Inl e \<Rightarrow> Inl e
              | Inr ovs' \<Rightarrow> Inr (ov' # ovs')))"

fun preprocess_scenes :: "nat \<Rightarrow> scene_cfg list \<Rightarrow> py_error + scene_cfg list" where
  "preprocess_scenes i [] = Inr []"
| "preprocess_scenes i (scene # scenes) =
     (let named = (if sc_name scene = None
                   then scene\<lparr>sc_name := Some (''Scene '' @ str_of_nat (i + 1))\<rparr>
                   else scene);
          with_effect = (if sc_background_effect named = None
                         then named\<lparr>sc_background_effect := Some \<lparr>ef_type = Some ''static''\<rparr>\<rparr>
                         else named)
      in case (case sc_overlays with_effect of
                 None \<Rightarrow> Inr None
               | Some ovs \<Rightarrow> map_sum id Some (preprocess_overlays ovs)) of
           Inl e \<Rightarrow> Inl e
         | Inr ovs' \<Rightarrow>
             (case preprocess_scenes (Suc i) scenes of
                Inl e \<Rightarrow> Inl e
              | Inr scenes' \<Rightarrow> Inr (with_effect\<lparr>sc_overlays := ovs'\<rparr> # scenes')))"

text \<open>
  \<open>load\<close> from the merged configuration on: validate, preprocess, and raise
  \<open>ValueError\<close> when validation has recorded an error.
\<close>

definition load_merged :: "os_ops \<Rightarrow> filesystem \<Rightarrow> config \<Rightarrow> py_error + config" where
  "load_merged ops fs merged =
     (let (fs', ld) = validate ops fs \<lparr>ld_config = merged, ld_warnings = [], ld_errors = []\<rparr>;
          cfg = ld_config ld
      in case (case cf_scenes cfg of
                 None \<Rightarrow> Inr None
               | Some scenes \<Rightarrow> map_sum id Some (preprocess_scenes 0 scenes)) of
           Inl e \<Rightarrow> Inl e
         | Inr scenes' \<Rightarrow>
             if ld_errors ld \<noteq> [] then Inl ValueError
             else Inr (cfg\<lparr>cf_scenes := scenes'\<rparr>))"

section \<open>Font loading in text rasterization (effects/text_animator_v2.py)\<close>

text \<open>
  A loaded font is a TrueType face at a pt, or PIL's built-in default face.
  \<open>loadable name pt\<close> says whether \<open>ImageFont.truetype(name, pt)\<close> finds and
  loads the face; otherwise it raises \<open>OSError\<close>.
\<close>

datatype pil_font = TrueType string int | DefaultFont

definition truetype :: "(string \<Rightarrow> int \<Rightarrow> bool) \<Rightarrow> string \<Rightarrow> int \<Rightarrow> py_error + pil_font" where
  "truetype loadable name pt =
     (if loadable name pt then Inr (TrueType name pt) else Inl OSError)"

text \<open>\<open>actual_font_size = int(font_size * frame_scale * 1.5)\<close> with the frame height over 720.\<close>

definition actual_font_size :: "int \<Rightarrow> real \<Rightarrow> int" where
  "actual_font_size height font_size =
     (let base_reference = 720;
          frame_scale = real_of_int height / base_reference
      in py_int (font_size * frame_scale * 1.5))"

text \<open>
  The font block of \<open>render_text\<close>: the named font, else Arial, else the default face.
\<close>

definition render_text_font :: "(string \<Rightarrow> int \<Rightarrow> bool) \<Rightarrow> int \<Rightarrow> string \<Rightarrow> real \<Rightarrow> py_error + pil_font" where
  "render_text_font loadable height font font_size =
     (let pt = actual_font_size height font_size in
      case truetype loadable font pt of
        Inr pil_font \<Rightarrow> Inr pil_font
      | Inl e \<Rightarrow>
          (case truetype loadable ''arial.ttf'' pt of
             Inr pil_font \<Rightarrow> Inr pil_font
           | Inl e' \<Rightarrow> Inr DefaultFont))"

text \<open>
  The font block of \<open>render_text_multicolor\<close>: the named font, else Arial; the second
  \<open>truetype\<close> call stands in the \<open>except\<close> branch unguarded.
\<close>

definition render_text_multicolor_font ::
  "(string \<Rightarrow> int \<Rightarrow> bool) \<Rightarrow> int \<Rightarrow> string \<Rightarrow> real \<Rightarrow> py_error + pil_font" where
  "render_text_multicolor_font loadable height font font_size =
     (let pt = actual_font_size height font_size in
      case truetype loadable font pt of
        Inr pil_font \<Rightarrow> Inr pil_font
      | Inl e \<Rightarrow> truetype loadable ''arial.ttf'' pt)"

text \<open>
  The two rasterizers: the font block, then the drawing with the loaded font, which is
  the parameter \<open>draw\<close>.
\<close>

definition render_text ::
  "(string \<Rightarrow> int \<Rightarrow> bool) \<Rightarrow> (pil_font \<Rightarrow> py_error + 'img) \<Rightarrow> int \<Rightarrow> string \<Rightarrow> real
     \<Rightarrow> py_error + 'img" where
  "render_text loadable draw height font font_size =
     (case render_text_font loadable height font font_size of
        Inl e \<Rightarrow> Inl e
      | Inr pil_font \<Rightarrow> draw pil_font)"

definition render_text_multicolor ::
  "(string \<Rightarrow> int \<Rightarrow> bool) \<Rightarrow> (pil_font \<Rightarrow> py_error + 'img) \<Rightarrow> int \<Rightarrow> string \<Rightarrow> real
     \<Rightarrow> py_error + 'img" where
  "render_text_multicolor loadable draw height font font_size =
     (case render_text_multicolor_font loadable height font font_size of
        Inl e \<Rightarrow> Inl e
      | Inr pil_font \<Rightarrow> draw pil_font)"

section \<open>Easing library (utils/easing.py)\<close>














section \<open>Animator (effects/text_animator_v2.py, \<open>generate_animation_frames\<close>)\<close>






text \<open>
  A PIL image is the expression that builds it: a new transparent image of a mode and
  size, a given raster (the rendered text), a resized image, a copy whose alpha channel is
  scaled, and a canvas after \<open>canvas.paste(img, (x, y), img)\<close>.  Pasting keeps the
  mode and the size of the canvas.
\<close>

datatype image_mode = RGBA | RGB













section \<open>Timeline (core/video_composer.py, \<open>_apply_transitions\<close>)\<close>




















section \<open>Double precision: evaluation\<close>

lemma py_round_of_int: "py_round (real_of_int k) = k"
  by (simp add: py_round_def)

text \<open>The rounding of a value whose binary exponent is known.\<close>

lemma double_round_exponent:
  assumes "2 powr real_of_int e \<le> \<bar>x\<bar>" "\<bar>x\<bar> < 2 powr real_of_int (e + 1)"
  shows "double_round x
           = real_of_int (py_round (x / 2 powr real_of_int (e - 52))) * 2 powr real_of_int (e - 52)"
proof -
  have pos: "0 < \<bar>x\<bar>" using assms(1) by (smt (verit) powr_gt_zero)
  have "real_of_int e \<le> log 2 \<bar>x\<bar>" using assms(1) pos by (simp add: le_log_iff)
  moreover have "log 2 \<bar>x\<bar> < real_of_int (e + 1)" using assms(2) pos by (simp add: log_less_iff)
  ultimately have "\<lfloor>log 2 \<bar>x\<bar>\<rfloor> = e" by linarith
  moreover have "x \<noteq> 0" using pos by auto
  ultimately show ?thesis by (simp add: double_round_def Let_def)
qed

lemma double_round_up:
  assumes "2 ^ n \<le> \<bar>x\<bar>" "\<bar>x\<bar> < 2 ^ Suc n" "n \<le> 52"
  shows "double_round x = real_of_int (py_round (x * 2 ^ (52 - n))) / 2 ^ (52 - n)"
proof -
  have a: "2 powr real_of_int (int n) = (2::real) ^ n" by (simp add: powr_realpow)
  have b: "2 powr real_of_int (int n + 1) = (2::real) ^ Suc n"
    using powr_realpow [of 2 "Suc n"] by (simp add: add.commute)
  have "real_of_int (int n - 52) = - real (52 - n)" using assms(3) by simp
  then have "2 powr real_of_int (int n - 52) = 2 powr (- real (52 - n))" by (simp only:)
  also have "\<dots> = 1 / (2::real) powr real (52 - n)" by (rule powr_minus_divide)
  also have "\<dots> = 1 / (2::real) ^ (52 - n)" by (simp only: powr_realpow zero_less_numeral)
  finally have c: "2 powr real_of_int (int n - 52) = 1 / (2::real) ^ (52 - n)" .
  from double_round_exponent [of "int n" x] assms a b
  have "double_round x = real_of_int (py_round (x / 2 powr real_of_int (int n - 52)))
          * 2 powr real_of_int (int n - 52)" by simp
  then show ?thesis unfolding c by simp
qed

lemma double_round_down:
  assumes "1 / 2 ^ n \<le> \<bar>x\<bar>" "\<bar>x\<bar> < 2 / 2 ^ n"
  shows "double_round x = real_of_int (py_round (x * 2 ^ (52 + n))) / 2 ^ (52 + n)"
proof -
  have a: "2 powr real_of_int (- int n) = 1 / (2::real) ^ n"
    by (simp add: powr_minus powr_realpow divide_inverse)
  have "2 powr real_of_int (- int n + 1) = 2 powr 1 * 2 powr (- real n)"
    using powr_add [of 2 1 "- real n"] by (simp add: add.commute)
  then have b: "2 powr real_of_int (- int n + 1) = 2 / (2::real) ^ n"
    by (simp add: powr_minus powr_realpow divide_inverse)
  have "real_of_int (- int n - 52) = - real (52 + n)" by simp
  then have "2 powr real_of_int (- int n - 52) = 2 powr (- real (52 + n))" by (simp only:)
  also have "\<dots> = 1 / (2::real) powr real (52 + n)" by (rule powr_minus_divide)
  also have "\<dots> = 1 / (2::real) ^ (52 + n)" by (simp only: powr_realpow zero_less_numeral)
  finally have c: "2 powr real_of_int (- int n - 52) = 1 / (2::real) ^ (52 + n)" .
  from double_round_exponent [of "- int n" x] assms a b
  have "double_round x = real_of_int (py_round (x / 2 powr real_of_int (- int n - 52)))
          * 2 powr real_of_int (- int n - 52)" by simp
  then show ?thesis unfolding c by simp
qed

section \<open>Properties of the duration policy\<close>

lemma split_acc_spaces: "list_all py_isspace s \<Longrightarrow> split_acc [] s = []"
  by (induction s) auto

lemma strip_empty_iff: "py_strip s = [] \<longleftrightarrow> list_all py_isspace s"
proof
  assume "py_strip s = []"
  then have a: "\<forall>c \<in> set (dropWhile py_isspace s). py_isspace c"
    by (simp add: py_strip_def)
  have "dropWhile py_isspace s = []"
  proof (rule ccontr)
    assume n: "dropWhile py_isspace s \<noteq> []"
    then have "\<not> py_isspace (hd (dropWhile py_isspace s))" by (rule hd_dropWhile)
    moreover from n have "hd (dropWhile py_isspace s) \<in> set (dropWhile py_isspace s)" by simp
    ultimately show False using a by blast
  qed
  then show "list_all py_isspace s" by (simp add: list_all_iff)
next
  assume "list_all py_isspace s"
  then show "py_strip s = []"
    by (auto simp: py_strip_def list_all_iff dest: set_dropWhileD)
qed

lemma text_duration_blank:
  assumes "list_all py_isspace text"
  shows "calculate_text_duration text = 4"
  using assms by (simp add: calculate_text_duration_def strip_empty_iff)

lemma text_duration_unfold:
  "calculate_text_duration text =
     max 4 (min (real (length (py_split text)) / 1.8 + 1.5 + real (length (py_split text)) * 0.4) 10)"
proof (cases "list_all py_isspace text")
  case True
  then have "py_split text = []" by (simp add: py_split_def split_acc_spaces)
  with True show ?thesis by (simp add: text_duration_blank)
next
  case False
  then have "text \<noteq> []" "py_strip text \<noteq> []" by (auto simp: strip_empty_iff)
  then show ?thesis by (simp add: calculate_text_duration_def Let_def)
qed

lemma text_duration_bounds: "4 \<le> calculate_text_duration text \<and> calculate_text_duration text \<le> 10"
  by (simp add: text_duration_unfold)

text \<open>
  C1.  For every text the display duration is \<open>word_count / 1.8 + 1.5 + word_count * 0.4\<close>
  clamped to the interval from 4 to 10, where \<open>word_count\<close> is the number of
  whitespace-separated tokens; an empty or whitespace-only text gives exactly 4; and the
  duration is a function of the text alone.
\<close>

theorem text_duration_formula:
  "calculate_text_duration text =
     max 4 (min (real (length (py_split text)) / 1.8 + 1.5 + real (length (py_split text)) * 0.4) 10)
   \<and> (list_all py_isspace text \<longrightarrow> calculate_text_duration text = 4)
   \<and> 4 \<le> calculate_text_duration text \<and> calculate_text_duration text \<le> 10
   \<and> (\<forall>text'. text' = text \<longrightarrow> calculate_text_duration text' = calculate_text_duration text)"
  using text_duration_unfold [of "text"] text_duration_blank [of "text"] text_duration_bounds [of "text"]
  by blast

theorem text_duration_formula_witness:
  "list_all py_isspace '' '' \<and> calculate_text_duration '' '' = 4
   \<and> calculate_text_duration ''buy one now'' = max 4 (min (3 / 1.8 + 1.5 + 3 * 0.4) 10)"
proof -
  have sp: "list_all py_isspace '' ''" by (simp add: py_isspace_def)
  have w: "py_split ''buy one now'' = [''buy'', ''one'', ''now'']"
    by (simp add: py_split_def py_isspace_def)
  from sp text_duration_formula [of "'' ''"] have "calculate_text_duration '' '' = 4" by blast
  moreover from w text_duration_formula [of "''buy one now''"]
  have "calculate_text_duration ''buy one now'' = max 4 (min (3 / 1.8 + 1.5 + 3 * 0.4) 10)"
    by simp
  ultimately show ?thesis using sp by blast
qed





section \<open>Properties of word wrapping\<close>

lemma split_acc_word:
  "\<not> list_ex py_isspace w \<Longrightarrow> split_acc cur (w @ rest) = split_acc (cur @ w) rest"
  by (induction w arbitrary: cur) auto

lemma split_acc_words:
  "\<not> list_ex py_isspace cur \<Longrightarrow> list_all is_word (split_acc cur s)"
proof (induction s arbitrary: cur)
  case Nil
  then show ?case by (simp add: is_word_def)
next
  case (Cons c s)
  show ?case
  proof (cases "py_isspace c")
    case True
    have "list_all is_word (split_acc [] s)" by (rule Cons.IH) simp
    with True Cons.prems show ?thesis by (simp add: is_word_def [of cur])
  next
    case False
    with Cons.prems have "\<not> list_ex py_isspace (cur @ [c])" by simp
    then have "list_all is_word (split_acc (cur @ [c]) s)" by (rule Cons.IH)
    with False show ?thesis by simp
  qed
qed

lemma py_split_words: "list_all is_word (py_split s)"
  by (simp add: py_split_def split_acc_words)

lemma split_join_words: "list_all is_word ws \<Longrightarrow> py_split (join_space ws) = ws"
proof (induction ws rule: join_space.induct)
  case 1
  then show ?case by (simp add: py_split_def)
next
  case (2 w)
  then have "\<not> list_ex py_isspace w" "w \<noteq> []" by (simp_all add: is_word_def)
  then show ?case using split_acc_word [of w "[]" "[]"] by (simp add: py_split_def)
next
  case (3 w v ws)
  then have w: "\<not> list_ex py_isspace w" "w \<noteq> []" by (simp_all add: is_word_def)
  from 3 have ih: "split_acc [] (join_space (v # ws)) = v # ws" by (simp add: py_split_def)
  have sp: "py_isspace CHR '' ''" by (simp add: py_isspace_def)
  have "split_acc [] (w @ CHR '' '' # join_space (v # ws))
          = split_acc w (CHR '' '' # join_space (v # ws))"
    using split_acc_word [OF w(1), of "[]"] by simp
  also have "\<dots> = w # split_acc [] (join_space (v # ws))" using w(2) sp by simp
  finally show ?case using ih by (simp add: py_split_def)
qed

text \<open>The loop neither loses nor reorders a word.\<close>

lemma wrap_loop_words:
  assumes "list_all is_word current_line" "list_all is_word words"
    and "wrap_loop line_width max_width lines current_line words = (ls, cl)"
  shows "concat (map py_split ls) @ cl = concat (map py_split lines) @ current_line @ words
         \<and> list_all is_word cl"
  using assms
proof (induction words arbitrary: lines current_line)
  case Nil
  then show ?case by auto
next
  case (Cons word words)
  from Cons.prems have w: "is_word word" and ws: "list_all is_word words" by simp_all
  show ?case
  proof (cases "line_width (join_space (current_line @ [word])) \<le> max_width")
    case True
    with Cons.prems(3)
    have "wrap_loop line_width max_width lines (current_line @ [word]) words = (ls, cl)"
      by simp
    moreover have "list_all is_word (current_line @ [word])" using Cons.prems(1) w by simp
    ultimately show ?thesis using Cons.IH [OF _ ws] by fastforce
  next
    case False
    let ?lines = "if current_line \<noteq> [] then lines @ [join_space current_line] else lines"
    from False Cons.prems(3)
    have "wrap_loop line_width max_width ?lines [word] words = (ls, cl)" by simp
    moreover have "list_all is_word [word]" using w by simp
    ultimately have "concat (map py_split ls) @ cl = concat (map py_split ?lines) @ [word] @ words
         \<and> list_all is_word cl"
      using Cons.IH [OF _ ws] by blast
    moreover have "concat (map py_split ?lines) = concat (map py_split lines) @ current_line"
      using split_join_words [OF Cons.prems(1)] by simp
    ultimately show ?thesis by simp
  qed
qed

lemma wrap_text_words: "concat (map py_split (wrap_text line_width max_width s)) = py_split s"
proof -
  obtain ls cl where l: "wrap_loop line_width max_width [] [] (py_split s) = (ls, cl)"
    by (cases "wrap_loop line_width max_width [] [] (py_split s)")
  from wrap_loop_words [OF _ py_split_words l]
  have c: "concat (map py_split ls) @ cl = py_split s" and k: "list_all is_word cl" by simp_all
  let ?lines = "if cl \<noteq> [] then ls @ [join_space cl] else ls"
  have "concat (map py_split ?lines) = py_split s"
    using c split_join_words [OF k] by auto
  then show ?thesis using l by (simp add: wrap_text_def Let_def)
qed

lemma wrap_text_nonempty: "wrap_text line_width max_width s \<noteq> []"
  by (simp add: wrap_text_def Let_def split: prod.splits)

lemma wrap_loop_fits:
  assumes "list_all (finished line_width max_width) lines"
    and "fits line_width max_width current_line" and "list_all is_word words"
    and "wrap_loop line_width max_width lines current_line words = (ls, cl)"
  shows "list_all (finished line_width max_width) ls \<and> fits line_width max_width cl"
  using assms
proof (induction words arbitrary: lines current_line)
  case Nil
  then show ?case by auto
next
  case (Cons word words)
  from Cons.prems have w: "is_word word" and ws: "list_all is_word words" by simp_all
  show ?case
  proof (cases "line_width (join_space (current_line @ [word])) \<le> max_width")
    case True
    with Cons.prems(4)
    have "wrap_loop line_width max_width lines (current_line @ [word]) words = (ls, cl)"
      by simp
    moreover have "fits line_width max_width (current_line @ [word])"
      using Cons.prems(2) w True by (simp add: fits_def)
    ultimately show ?thesis using Cons.IH [OF Cons.prems(1) _ ws] by blast
  next
    case False
    let ?lines = "if current_line \<noteq> [] then lines @ [join_space current_line] else lines"
    from False Cons.prems(4)
    have "wrap_loop line_width max_width ?lines [word] words = (ls, cl)" by simp
    moreover have "fits line_width max_width [word]" using w by (simp add: fits_def)
    moreover have "finished line_width max_width (join_space current_line)"
      using Cons.prems(2) unfolding finished_def by blast
    then have "list_all (finished line_width max_width) ?lines"
      using Cons.prems(1) by simp
    ultimately show ?thesis using Cons.IH [OF _ _ ws] by blast
  qed
qed

lemma finished_wide_word:
  assumes m: "metric_covers_words line_width" and f: "finished line_width max_width l"
    and w: "w \<in> set (py_split l)" and wide: "max_width < line_width w"
  shows "l = w"
proof -
  from f obtain ws where l: "l = join_space ws" and fit: "fits line_width max_width ws"
    by (auto simp: finished_def)
  from fit have ws: "py_split l = ws" using l split_join_words by (simp add: fits_def)
  with w have mem: "w \<in> set ws" by simp
  with m have "line_width w \<le> line_width (join_space ws)"
    by (simp add: metric_covers_words_def)
  with wide fit have "length ws < 2" by (auto simp: fits_def)
  with mem have "ws = [w]" by (cases ws) auto
  with l show ?thesis by simp
qed

lemma wrap_text_wide_word:
  assumes m: "metric_covers_words line_width"
    and l: "l \<in> set (wrap_text line_width max_width s)"
    and w: "w \<in> set (py_split l)" and wide: "max_width < line_width w"
  shows "l = w"
proof -
  obtain ls cl where lp: "wrap_loop line_width max_width [] [] (py_split s) = (ls, cl)"
    by (cases "wrap_loop line_width max_width [] [] (py_split s)")
  have "fits line_width max_width []" by (simp add: fits_def)
  from wrap_loop_fits [OF _ this py_split_words lp]
  have fl: "list_all (finished line_width max_width) ls" and fc: "fits line_width max_width cl"
    by simp_all
  let ?lines = "if cl \<noteq> [] then ls @ [join_space cl] else ls"
  have "finished line_width max_width (join_space cl)"
    using fc unfolding finished_def by blast
  then have all: "list_all (finished line_width max_width) ?lines"
    using fl by simp
  show ?thesis
  proof (cases "?lines = []")
    case True
    with lp l have "l = s" by (simp add: wrap_text_def Let_def split: if_splits)
    moreover from True have "ls = []" "cl = []" by (auto split: if_splits)
    with wrap_loop_words [OF _ py_split_words lp] have "py_split s = []" by simp
    ultimately show ?thesis using w by simp
  next
    case False
    with lp l have "l \<in> set ?lines" by (simp add: wrap_text_def Let_def split: if_splits)
    with all have "finished line_width max_width l" by (auto simp: list_all_iff)
    from finished_wide_word [OF m this w wide] show ?thesis .
  qed
qed

lemma length_metric_covers: "metric_covers_words (\<lambda>s. int (length s))"
proof -
  have "w \<in> set ws \<Longrightarrow> length w \<le> length (join_space ws)" for w ws
    by (induction ws rule: join_space.induct) auto
  then show ?thesis by (simp add: metric_covers_words_def)
qed

text \<open>
  C9.  For every input string and maximum width the wrapped text is a non-empty list of
  lines, and the whitespace-separated words of the lines, concatenated in order, are
  exactly the whitespace-separated words of the input: no word is lost, duplicated,
  reordered or split.  Under a font metric in which a line is at least as wide as each of
  its words, a word wider than the maximum width is a line of its own.
\<close>

theorem wrap_text_preserves_words:
  "wrap_text line_width max_width s \<noteq> []
   \<and> concat (map py_split (wrap_text line_width max_width s)) = py_split s
   \<and> (metric_covers_words line_width \<longrightarrow>
        (\<forall>l \<in> set (wrap_text line_width max_width s).
           \<forall>w \<in> set (py_split l). max_width < line_width w \<longrightarrow> l = w))"
  using wrap_text_nonempty [of line_width max_width s]
    wrap_text_words [of line_width max_width s]
    wrap_text_wide_word [of line_width _ max_width s]
  by blast

theorem wrap_text_preserves_words_witness:
  "metric_covers_words (\<lambda>s. int (length s))
   \<and> wrap_text (\<lambda>s. int (length s)) 5 ''ab  incredible cd e'' = [''ab'', ''incredible'', ''cd e'']
   \<and> concat (map py_split [''ab'', ''incredible'', ''cd e'']) = py_split ''ab  incredible cd e''
   \<and> ''incredible'' \<in> set (py_split ''incredible'')
   \<and> 5 < int (length ''incredible'')"
proof -
  have v: "wrap_text (\<lambda>s. int (length s)) 5 ''ab  incredible cd e'' = [''ab'', ''incredible'', ''cd e'']"
    by (simp add: wrap_text_def py_split_def py_isspace_def)
  have "concat (map py_split (wrap_text (\<lambda>s. int (length s)) 5 ''ab  incredible cd e''))
          = py_split ''ab  incredible cd e''"
    using wrap_text_preserves_words [of "\<lambda>s. int (length s)" 5 "''ab  incredible cd e''"]
    by blast
  with v have "concat (map py_split [''ab'', ''incredible'', ''cd e'']) = py_split ''ab  incredible cd e''"
    by simp
  moreover have "''incredible'' \<in> set (py_split ''incredible'')"
    by (simp add: py_split_def py_isspace_def)
  ultimately show ?thesis using v length_metric_covers by simp
qed

section \<open>Properties of position parsing\<close>








section \<open>Properties of audio attachment\<close>

lemma add_audio_equal:
  assumes "path_exists p" "media_duration p = v_duration v"
  shows "add_audio path_exists media_duration p v = Inr (v\<lparr>v_audio := Some (AudioFileClip p)\<rparr>)"
  using assms by (simp add: add_audio_def)

lemma add_audio_fadeout_iff:
  assumes "path_exists p" "add_audio path_exists media_duration p v = Inr v'"
  shows "\<exists>a. v_audio v' = Some a \<and> (has_fadeout a \<longleftrightarrow> media_duration p \<noteq> v_duration v)"
proof -
  consider (longer) "media_duration p > v_duration v"
    | (shorter) "media_duration p < v_duration v"
    | (equal) "media_duration p = v_duration v"
    by linarith
  then show ?thesis
  proof cases
    case longer
    with assms show ?thesis by (auto simp: add_audio_def)
  next
    case shorter
    with assms show ?thesis by (auto simp: add_audio_def Let_def split: if_splits)
  next
    case equal
    with assms show ?thesis by (auto simp: add_audio_def)
  qed
qed

text \<open>
  C10.  When the audio file exists and its duration equals the duration of the composed
  video, the audio is attached as loaded: no sub-clip, no loop, no fade-out.  Whenever
  audio is attached, it carries the 1.5-second fade-out exactly when the two durations
  differ.
\<close>

theorem add_audio_equal_duration_unmodified:
  "(path_exists p \<and> media_duration p = v_duration v \<longrightarrow>
      add_audio path_exists media_duration p v = Inr (v\<lparr>v_audio := Some (AudioFileClip p)\<rparr>))
   \<and> (path_exists p \<and> add_audio path_exists media_duration p v = Inr v' \<longrightarrow>
        (\<exists>a. v_audio v' = Some a
             \<and> (has_fadeout a \<longleftrightarrow> media_duration p \<noteq> v_duration v)))"
  using add_audio_equal [of path_exists p media_duration v]
    add_audio_fadeout_iff [of path_exists p media_duration v v']
  by blast

theorem add_audio_equal_duration_unmodified_witness:
  "add_audio (\<lambda>p. p = ''music.mp3'') (\<lambda>p. 10) ''music.mp3'' \<lparr>v_duration = 10, v_audio = None\<rparr>
     = Inr \<lparr>v_duration = 10, v_audio = Some (AudioFileClip ''music.mp3'')\<rparr>
   \<and> \<not> has_fadeout (AudioFileClip ''music.mp3'')
   \<and> add_audio (\<lambda>p. p = ''music.mp3'') (\<lambda>p. 4) ''music.mp3'' \<lparr>v_duration = 10, v_audio = None\<rparr>
     = Inr \<lparr>v_duration = 10, v_audio = Some (AudioFadeOut (Subclip (ConcatAudio
          [AudioFileClip ''music.mp3'', AudioFileClip ''music.mp3'', AudioFileClip ''music.mp3''])
          0 10) 1.5)\<rparr>"
proof -
  have "add_audio (\<lambda>p. p = ''music.mp3'') (\<lambda>p. 10) ''music.mp3'' \<lparr>v_duration = 10, v_audio = None\<rparr>
     = Inr \<lparr>v_duration = 10, v_audio = Some (AudioFileClip ''music.mp3'')\<rparr>"
    using add_audio_equal_duration_unmodified
      [of "\<lambda>p. p = ''music.mp3''" "''music.mp3''" "\<lambda>p. 10" "\<lparr>v_duration = 10, v_audio = None\<rparr>"]
    by simp
  moreover have "py_int (10 / 4) = 2" by (simp add: py_int_def)
  then have "add_audio (\<lambda>p. p = ''music.mp3'') (\<lambda>p. 4) ''music.mp3'' \<lparr>v_duration = 10, v_audio = None\<rparr>
     = Inr \<lparr>v_duration = 10, v_audio = Some (AudioFadeOut (Subclip (ConcatAudio
          [AudioFileClip ''music.mp3'', AudioFileClip ''music.mp3'', AudioFileClip ''music.mp3''])
          0 10) 1.5)\<rparr>"
    by (simp add: add_audio_def numeral_3_eq_3 Let_def)
  ultimately show ?thesis by simp
qed

section \<open>Properties of configuration validation\<close>

lemma validate_errors_audio:
  "ld_errors (snd (validate ops fs \<lparr>ld_config = cfg\<lparr>cf_audio_path := a\<rparr>, ld_warnings = ws, ld_errors = es\<rparr>))
     = ld_errors (snd (validate ops fs \<lparr>ld_config = cfg, ld_warnings = ws, ld_errors = es\<rparr>))"
  by (simp add: validate_def Let_def split_beta)

lemma validate_scenes_audio:
  "cf_scenes (ld_config (snd (validate ops fs \<lparr>ld_config = cfg\<lparr>cf_audio_path := a\<rparr>, ld_warnings = ws, ld_errors = es\<rparr>)))
     = cf_scenes (ld_config (snd (validate ops fs \<lparr>ld_config = cfg, ld_warnings = ws, ld_errors = es\<rparr>)))"
  by (simp add: validate_def Let_def split_beta)

lemma validate_warns_missing_audio:
  assumes "cf_audio_path cfg = Some p"
    and "\<not> fst (output_dir_step ops fs (cf_output_path cfg)) p"
  shows "AudioNotFound p
           \<in> set (ld_warnings (snd (validate ops fs \<lparr>ld_config = cfg, ld_warnings = ws, ld_errors = es\<rparr>)))"
  using assms by (simp add: validate_def Let_def split_beta audio_step_def)

lemma load_merged_audio:
  "isl (load_merged ops fs (cfg\<lparr>cf_audio_path := a\<rparr>)) = isl (load_merged ops fs cfg)"
  by (simp add: load_merged_def Let_def split_beta validate_errors_audio validate_scenes_audio
      split: sum.splits)

text \<open>
  C7 as stated fails.  With the scene image on disk and the audio file missing,
  validation records no error and one warning, loading does not raise, and attaching the
  audio returns the video as it is.
\<close>

theorem missing_audio_counterexample:
  "\<not> (\<lambda>p. p = ''scenes/scene1.png'') ''soundtrack/music.mp3''
   \<and> ld_errors (snd (validate
        \<lparr>os_dirname = posix_dirname, os_makedirs = (\<lambda>fs d. Some (fs(d := True)))\<rparr>
        (\<lambda>p. p = ''scenes/scene1.png'')
        \<lparr>ld_config =
           \<lparr>cf_scenes = Some [\<lparr>sc_name = None, sc_image_path = Some ''scenes/scene1.png'',
                                sc_background_effect = None, sc_transition = None,
                                sc_overlays = None\<rparr>],
            cf_output_path = ''output/video.mp4'',
            cf_audio_path = Some ''soundtrack/music.mp3'',
            cf_width = 1184, cf_height = 864, cf_fps = 30\<rparr>,
         ld_warnings = [], ld_errors = []\<rparr>)) = []
   \<and> ld_warnings (snd (validate
        \<lparr>os_dirname = posix_dirname, os_makedirs = (\<lambda>fs d. Some (fs(d := True)))\<rparr>
        (\<lambda>p. p = ''scenes/scene1.png'')
        \<lparr>ld_config =
           \<lparr>cf_scenes = Some [\<lparr>sc_name = None, sc_image_path = Some ''scenes/scene1.png'',
                                sc_background_effect = None, sc_transition = None,
                                sc_overlays = None\<rparr>],
            cf_output_path = ''output/video.mp4'',
            cf_audio_path = Some ''soundtrack/music.mp3'',
            cf_width = 1184, cf_height = 864, cf_fps = 30\<rparr>,
         ld_warnings = [], ld_errors = []\<rparr>)) = [AudioNotFound ''soundtrack/music.mp3'']
   \<and> \<not> isl (load_merged
        \<lparr>os_dirname = posix_dirname, os_makedirs = (\<lambda>fs d. Some (fs(d := True)))\<rparr>
        (\<lambda>p. p = ''scenes/scene1.png'')
        \<lparr>cf_scenes = Some [\<lparr>sc_name = None, sc_image_path = Some ''scenes/scene1.png'',
                             sc_background_effect = None, sc_transition = None,
                             sc_overlays = None\<rparr>],
         cf_output_path = ''output/video.mp4'',
         cf_audio_path = Some ''soundtrack/music.mp3'',
         cf_width = 1184, cf_height = 864, cf_fps = 30\<rparr>)
   \<and> add_audio (\<lambda>p. p = ''scenes/scene1.png'') (\<lambda>p. 0) ''soundtrack/music.mp3''
        \<lparr>v_duration = 4.5, v_audio = None\<rparr>
       = Inr \<lparr>v_duration = 4.5, v_audio = None\<rparr>"
  by (simp add: validate_def load_merged_def validate_scenes_def validate_scene_def
      output_dir_step_def audio_step_def posix_dirname_def add_audio_def Let_def)

text \<open>
  C7, amended.  If the configured audio file does not exist when validation checks it,
  validation records a warning, not an error: the errors are those of the same
  configuration without an audio path, so loading fails or succeeds exactly as it would
  without the audio path.  When the audio is to be attached and the file does not exist,
  the video is returned unchanged, without audio.
\<close>

theorem missing_audio_is_warning:
  "(cf_audio_path cfg = Some p \<and> \<not> fst (output_dir_step ops fs (cf_output_path cfg)) p \<longrightarrow>
      AudioNotFound p
        \<in> set (ld_warnings (snd (validate ops fs \<lparr>ld_config = cfg, ld_warnings = [], ld_errors = []\<rparr>)))
      \<and> ld_errors (snd (validate ops fs \<lparr>ld_config = cfg, ld_warnings = [], ld_errors = []\<rparr>))
          = ld_errors (snd (validate ops fs
              \<lparr>ld_config = cfg\<lparr>cf_audio_path := None\<rparr>, ld_warnings = [], ld_errors = []\<rparr>))
      \<and> isl (load_merged ops fs cfg) = isl (load_merged ops fs (cfg\<lparr>cf_audio_path := None\<rparr>)))
   \<and> (\<not> path_exists p \<longrightarrow> add_audio path_exists media_duration p v = Inr v)"
  using validate_warns_missing_audio [where cfg = cfg and p = p and ops = ops and fs = fs
      and ws = "[]" and es = "[]"]
    validate_errors_audio [where cfg = cfg and a = None and ops = ops and fs = fs
      and ws = "[]" and es = "[]"]
    load_merged_audio [where cfg = cfg and a = None and ops = ops and fs = fs]
  by (simp add: add_audio_def)

theorem missing_audio_is_warning_witness:
  "cf_audio_path
      \<lparr>cf_scenes = Some [], cf_output_path = ''video.mp4'', cf_audio_path = Some ''music.mp3'',
       cf_width = 1184, cf_height = 864, cf_fps = 30\<rparr> = Some ''music.mp3''
   \<and> \<not> fst (output_dir_step
        \<lparr>os_dirname = posix_dirname, os_makedirs = (\<lambda>fs d. Some (fs(d := True)))\<rparr>
        (\<lambda>p. False) ''video.mp4'') ''music.mp3''
   \<and> AudioNotFound ''music.mp3''
        \<in> set (ld_warnings (snd (validate
              \<lparr>os_dirname = posix_dirname, os_makedirs = (\<lambda>fs d. Some (fs(d := True)))\<rparr>
              (\<lambda>p. False)
              \<lparr>ld_config =
                 \<lparr>cf_scenes = Some [], cf_output_path = ''video.mp4'',
                  cf_audio_path = Some ''music.mp3'',
                  cf_width = 1184, cf_height = 864, cf_fps = 30\<rparr>,
               ld_warnings = [], ld_errors = []\<rparr>)))
   \<and> add_audio (\<lambda>p. False) (\<lambda>p. 3) ''music.mp3'' \<lparr>v_duration = 4.5, v_audio = None\<rparr>
       = Inr \<lparr>v_duration = 4.5, v_audio = None\<rparr>"
proof -
  let ?ops = "\<lparr>os_dirname = posix_dirname, os_makedirs = (\<lambda>fs d. Some (fs(d := True)))\<rparr>"
  let ?cfg = "\<lparr>cf_scenes = Some [], cf_output_path = ''video.mp4'',
               cf_audio_path = Some ''music.mp3'',
               cf_width = 1184, cf_height = 864, cf_fps = 30\<rparr>"
  have h: "\<not> fst (output_dir_step ?ops (\<lambda>p. False) ''video.mp4'') ''music.mp3''"
    by (simp add: output_dir_step_def posix_dirname_def)
  from h missing_audio_is_warning [where cfg = ?cfg and p = "''music.mp3''" and ops = ?ops
      and fs = "\<lambda>p. False" and path_exists = "\<lambda>p. False" and media_duration = "\<lambda>p. 3"
      and v = "\<lparr>v_duration = 4.5, v_audio = None\<rparr>"]
  show ?thesis by simp
qed

section \<open>Properties of font loading\<close>

lemma render_text_font_total:
  "\<exists>pil_font. render_text_font loadable height font font_size = Inr pil_font"
  by (simp add: render_text_font_def Let_def split: sum.splits)

lemma render_text_never_font_error:
  "\<exists>pil_font. render_text loadable draw height font font_size = draw pil_font"
  using render_text_font_total [of loadable height font font_size]
  by (auto simp: render_text_def)

text \<open>
  C6 on the code.  Where neither the named font nor \<open>arial.ttf\<close> can be loaded, the
  single-colour rasterizer draws with the default face, and the multi-colour rasterizer
  raises \<open>OSError\<close> before it draws.
\<close>

theorem multicolor_font_lookup_raises:
  "render_text (\<lambda>name pt. False) (\<lambda>pil_font. Inr pil_font) 864 ''NoSuchFont'' 25
     = Inr DefaultFont
   \<and> render_text_multicolor (\<lambda>name pt. False) (\<lambda>pil_font. Inr pil_font) 864 ''NoSuchFont'' 25
     = Inl OSError"
  by (simp add: render_text_def render_text_multicolor_def render_text_font_def
      render_text_multicolor_font_def truetype_def)

section \<open>Properties of the easing library\<close>





























section \<open>Properties of the animator\<close>











section \<open>Properties of the timeline\<close>
















end
